theory Spec2Isabelle
  imports Complex_Main "HOL-Library.AList" "HOL-Library.Sublist"
begin

section \<open>Epiclock: GEO dataset inspector and Illumina annotation extractor\<close>

text \<open>
  A shallow embedding of \<^verbatim>\<open>s00005_geo_inspector.py\<close> and
  \<^verbatim>\<open>s00007_extract_annotation.py\<close>. Python strings are lists of
  code points; a \<^typ>\<open>char\<close> stands for a code point below 256, so the
  string functions below follow Python on that range. Python floats are read as the
  rational numbers they denote. Exceptions are values of \<open>error\<close>; an operation
  that may raise after it has logged or written returns its outcome with the world it
  leaves behind.
\<close>

subsection \<open>Exceptions\<close>

datatype error =
    OverflowError
  | ValueError string
  | AssertionError
  | AttributeError string
  | TypeError string
  | FileNotFoundError string
  | HTTPError string
  | ConnectionError string
  | UnpicklingError string
  | KeyError string
  | PathTraversal
  | OtherException string
  | FalsyException string
  | SystemExit int
  | KeyboardInterrupt

text \<open>\<^verbatim>\<open>isinstance(e, Exception)\<close>: what an
  \<^verbatim>\<open>except Exception\<close> clause catches. \<^verbatim>\<open>SystemExit\<close> and
  \<^verbatim>\<open>KeyboardInterrupt\<close> derive from \<^verbatim>\<open>BaseException\<close> only.\<close>

definition isinstance_Exception :: "error \<Rightarrow> bool" where
  "isinstance_Exception e = (case e of SystemExit c \<Rightarrow> False | KeyboardInterrupt \<Rightarrow> False | _ \<Rightarrow> True)"

text \<open>\<^verbatim>\<open>bool(e)\<close>, the truth value of an exception object: true unless
  its class defines \<^verbatim>\<open>__bool__\<close> or \<^verbatim>\<open>__len__\<close> otherwise, as
  the class of a \<open>FalsyException\<close> does.\<close>

definition truth_value :: "error \<Rightarrow> bool" where
  "truth_value e = (case e of FalsyException n \<Rightarrow> False | _ \<Rightarrow> True)"

subsection \<open>Strings\<close>

text \<open>\<^verbatim>\<open>str.isspace\<close> on one code point below 256.\<close>

definition isspace :: "char \<Rightarrow> bool" where
  "isspace c = (let n = (of_char c :: nat) in
     (9 \<le> n \<and> n \<le> 13) \<or> (28 \<le> n \<and> n \<le> 32) \<or> n = 133 \<or> n = 160)"

text \<open>\<^verbatim>\<open>str.strip()\<close>: leading and trailing whitespace removed.\<close>

definition str_strip :: "string \<Rightarrow> string" where
  "str_strip s = rev (dropWhile isspace (rev (dropWhile isspace s)))"

text \<open>\<^verbatim>\<open>str.lower()\<close> on one code point below 256: A-Z, and the
  Latin-1 capitals U+00C0..U+00DE without the multiplication sign U+00D7.\<close>

definition lower_char :: "char \<Rightarrow> char" where
  "lower_char c = (let n = (of_char c :: nat) in
     if (65 \<le> n \<and> n \<le> 90) \<or> (192 \<le> n \<and> n \<le> 222 \<and> n \<noteq> 215)
     then char_of (n + 32) else c)"

definition str_lower :: "string \<Rightarrow> string" where
  "str_lower s = map lower_char s"

text \<open>\<^verbatim>\<open>":" in item\<close>.\<close>

definition has_colon :: "string \<Rightarrow> bool" where
  "has_colon item = (CHR '':'' \<in> set item)"

text \<open>\<^verbatim>\<open>item.split(":", 1)\<close> for an item that holds a colon: the text
  before the first colon and the text after it.\<close>

definition split_colon :: "string \<Rightarrow> string \<times> string" where
  "split_colon item =
     (takeWhile (\<lambda>c. c \<noteq> CHR '':'') item, tl (dropWhile (\<lambda>c. c \<noteq> CHR '':'') item))"

text \<open>Decimal digits of a natural number, as \<^verbatim>\<open>"%d"\<close> prints them.\<close>

definition digit :: "nat \<Rightarrow> char" where
  "digit d = ''0123456789'' ! d"

fun str_nat :: "nat \<Rightarrow> string" where
  "str_nat n = (if n < 10 then [digit n] else str_nat (n div 10) @ [digit (n mod 10)])"

declare str_nat.simps [simp del]

definition str_int :: "int \<Rightarrow> string" where
  "str_int i = (if i < 0 then CHR ''-'' # str_nat (nat (- i)) else str_nat (nat i))"

text \<open>\<^verbatim>\<open>"%02d"\<close> on a non-negative integer.\<close>

definition pad2 :: "nat \<Rightarrow> string" where
  "pad2 n = (if n < 10 then CHR ''0'' # str_nat n else str_nat n)"

subsection \<open>format_duration\<close>

text \<open>Python's \<^verbatim>\<open>round(x)\<close> on a finite float: the nearest integer, a tie
  going to the even one.\<close>

definition py_round :: "rat \<Rightarrow> int" where
  "py_round x = (let f = \<lfloor>x\<rfloor>; d = x - of_int f in
     if d < 1 / 2 then f
     else if 1 / 2 < d then f + 1
     else if even f then f else f + 1)"

text \<open>\<^verbatim>\<open>datetime.timedelta(seconds=n)\<close> for an integer \<open>n\<close>: the
  normalised pair of days and seconds of the day; more than 999999999 days either way is an
  \<^verbatim>\<open>OverflowError\<close>.\<close>

record timedelta =
  days :: int
  seconds :: nat

definition timedelta_of_seconds :: "int \<Rightarrow> error + timedelta" where
  "timedelta_of_seconds n =
     (let d = n div 86400; s = nat (n mod 86400) in
      if \<bar>d\<bar> > 999999999 then Inl OverflowError
      else Inr \<lparr>days = d, seconds = s\<rparr>)"

text \<open>\<^verbatim>\<open>timedelta.__str__\<close> (the microseconds are 0 here).\<close>

definition timedelta_str :: "timedelta \<Rightarrow> string" where
  "timedelta_str td =
     (let mm = seconds td div 60; ss = seconds td mod 60;
          hh = mm div 60; mm' = mm mod 60;
          s = str_nat hh @ '':'' @ pad2 mm' @ '':'' @ pad2 ss
      in if days td \<noteq> 0
         then str_int (days td) @ '' day'' @ (if \<bar>days td\<bar> \<noteq> 1 then ''s'' else '''') @ '', '' @ s
         else s)"

definition format_duration :: "rat \<Rightarrow> error + string" where
  "format_duration secs =
     (case timedelta_of_seconds (py_round secs) of
        Inl e \<Rightarrow> Inl e
      | Inr td \<Rightarrow> Inr (timedelta_str td))"

text \<open>The spec's reading of the format, H:MM:SS of a whole number of seconds: the hours
  unpadded, minutes and seconds on two digits.\<close>

definition spec_H_MM_SS :: "nat \<Rightarrow> string" where
  "spec_H_MM_SS n = str_nat (n div 3600) @ '':'' @ pad2 (n div 60 mod 60) @ '':'' @ pad2 (n mod 60)"

subsection \<open>SystemMonitor\<close>

record snapshot =
  cpu_percent :: rat
  mem_used :: int
  mem_total :: int
  disk_used :: int
  disk_total :: int

record resource_delta =
  rss_delta :: rat
  disk_delta :: rat
  cpu_after :: rat

definition delta :: "snapshot \<Rightarrow> snapshot \<Rightarrow> resource_delta" where
  "delta snap_before snap_after =
     \<lparr>rss_delta = of_int (mem_used snap_after - mem_used snap_before) / (1024 ^ 2),
      disk_delta = of_int (disk_used snap_after - disk_used snap_before) / (1024 ^ 2),
      cpu_after = cpu_percent snap_after\<rparr>"

subsection \<open>Paths (posixpath)\<close>

text \<open>\<^verbatim>\<open>str.split(sep)\<close> and \<^verbatim>\<open>sep.join(parts)\<close> for a
  one-character separator.\<close>

fun str_split :: "char \<Rightarrow> string \<Rightarrow> string list" where
  "str_split sep [] = [[]]"
| "str_split sep (c # cs) =
     (if c = sep then [] # str_split sep cs
      else (case str_split sep cs of
              [] \<Rightarrow> [[c]]
            | w # ws \<Rightarrow> (c # w) # ws))"

fun str_join :: "char \<Rightarrow> string list \<Rightarrow> string" where
  "str_join sep [] = []"
| "str_join sep [w] = w"
| "str_join sep (w # ws) = w @ sep # str_join sep ws"

definition isabs :: "string \<Rightarrow> bool" where
  "isabs p = (case p of [] \<Rightarrow> False | c # _ \<Rightarrow> c = CHR ''/'')"

text \<open>\<^verbatim>\<open>os.path.join(a, b)\<close>.\<close>

definition path_join :: "string \<Rightarrow> string \<Rightarrow> string" where
  "path_join a b =
     (if isabs b then b
      else if a = [] \<or> last a = CHR ''/'' then a @ b
      else a @ CHR ''/'' # b)"

text \<open>\<^verbatim>\<open>os.path.dirname(p)\<close>: the text up to the last slash,
  without its trailing slashes unless it is made of slashes only.\<close>

definition dirname :: "string \<Rightarrow> string" where
  "dirname p =
     (let head = rev (dropWhile (\<lambda>c. c \<noteq> CHR ''/'') (rev p)) in
      if head \<noteq> [] \<and> head \<noteq> replicate (length head) CHR ''/''
      then rev (dropWhile (\<lambda>c. c = CHR ''/'') (rev head))
      else head)"

text \<open>\<^verbatim>\<open>os.path.basename(p)\<close>: the text after the last slash.\<close>

definition basename :: "string \<Rightarrow> string" where
  "basename p = rev (takeWhile (\<lambda>c. c \<noteq> CHR ''/'') (rev p))"

text \<open>One round of the loop of \<^verbatim>\<open>os.path.normpath\<close> over the components.\<close>

definition normpath_step :: "nat \<Rightarrow> string \<Rightarrow> string list \<Rightarrow> string list" where
  "normpath_step initial_slashes component new_comps =
     (if component = [] \<or> component = ''.'' then new_comps
      else if component \<noteq> ''..'' \<or> (initial_slashes = 0 \<and> new_comps = [])
              \<or> (new_comps \<noteq> [] \<and> last new_comps = ''..'')
      then new_comps @ [component]
      else if new_comps \<noteq> [] then butlast new_comps
      else new_comps)"

definition normpath :: "string \<Rightarrow> string" where
  "normpath path =
     (if path = [] then ''.''
      else
        let initial_slashes =
              (if isabs path
               then (if take 2 path = ''//'' \<and> take 3 path \<noteq> ''///'' then 2 else 1)
               else (0::nat));
            comps = fold (normpath_step initial_slashes) (str_split CHR ''/'' path) [];
            p = replicate initial_slashes CHR ''/'' @ str_join CHR ''/'' comps
        in if p = [] then ''.'' else p)"

text \<open>\<^verbatim>\<open>os.path.abspath(path)\<close>, the current directory \<open>cwd\<close> being
  what \<^verbatim>\<open>os.getcwd()\<close> returns.\<close>

definition abspath :: "string \<Rightarrow> string \<Rightarrow> string" where
  "abspath cwd path = normpath (if isabs path then path else path_join cwd path)"

text \<open>\<^verbatim>\<open>os.path.commonprefix(m)\<close>: the longest string that is a prefix,
  character by character, of every string of the list.\<close>

definition commonprefix :: "string list \<Rightarrow> string" where
  "commonprefix m = (case m of [] \<Rightarrow> [] | s # ss \<Rightarrow> fold longest_common_prefix ss s)"

subsection \<open>The world: files, the log, the network\<close>

datatype level = INFO | ERROR

text \<open>One constructor for each message the two scripts format; the arguments are the
  values the f-string interpolates.\<close>

datatype message =
    StartStep string
  | FailStep string string
  | ResourceDelta rat rat rat
  | DoneStep string string
  | SoftPresent string
  | Downloading string string
  | DownloadComplete
  | AttemptCacheLoad
  | UsingCached nat
  | CacheLoadFailed error
  | FriendlyCopy string
  | FilenameParseFailed string
  | Resaved string
  | MetadataSummary string
  | LabelCount string nat
  | Blank
  | CsvSaved string
  | FinalVerification
  | FileExists string
  | ObjectLoaded
  | SamplesLoaded nat
  | MetadataKeys "string list"
  | VerifyLoadFailed error
  | ObjectNotFound
  | InspectionComplete

datatype request = GeoDownload string string | HttpGet string nat

record world =
  files :: "(string \<times> string) list"
  logged :: "(level \<times> message) list"
  requests :: "request list"
  cwd :: string

type_synonym 'a outcome = "(error + 'a) \<times> world"

text \<open>\<^verbatim>\<open>FileLogger.log\<close> is \<^verbatim>\<open>logging.info\<close>;
  \<^verbatim>\<open>logging.exception\<close> logs at level ERROR.\<close>

definition log_info :: "message \<Rightarrow> world \<Rightarrow> world" where
  "log_info m w = w\<lparr>logged := logged w @ [(INFO, m)]\<rparr>"


definition exists_path :: "world \<Rightarrow> string \<Rightarrow> bool" where
  "exists_path w p = (map_of (files w) p \<noteq> None)"

definition getsize :: "world \<Rightarrow> string \<Rightarrow> nat" where
  "getsize w p = (case map_of (files w) p of None \<Rightarrow> 0 | Some c \<Rightarrow> length c)"

definition write_file :: "string \<Rightarrow> string \<Rightarrow> world \<Rightarrow> world" where
  "write_file p c w = w\<lparr>files := AList.update p c (files w)\<rparr>"

subsection \<open>StepTimer\<close>






subsection \<open>GeoDatasetFetcher\<close>

text \<open>What \<^verbatim>\<open>joblib.load\<close> may return: any object. An attribute is
  absent, present without a length, or a sized collection.\<close>

datatype 'a attribute = Absent | Unsized | Sized 'a

type_synonym metadata = "(string \<times> string list) list"

record gsm =
  gsm_metadata :: metadata

record gse =
  gsms :: "(string \<times> gsm) list attribute"
  metadata :: "metadata attribute"

text \<open>The libraries the fetcher calls: joblib's (de)serialisation of a file's bytes,
  GEOparse's download of a series into a directory, GEOparse's parser of a SOFT file (given
  the file's path and the bytes of the file), and pandas' rendering of a table as CSV text.
  Each may raise any exception, \<^verbatim>\<open>SystemExit\<close> included: unpickling runs the code
  the pickle names.\<close>

record libs =
  joblib_loads :: "string \<Rightarrow> error + gse"
  joblib_dumps :: "gse \<Rightarrow> string"
  get_GEO_remote :: "string \<Rightarrow> string \<Rightarrow> world \<Rightarrow> unit outcome"
  get_GEO_file :: "string \<Rightarrow> string option \<Rightarrow> error + gse"
  to_csv :: "string list \<Rightarrow> string option list list \<Rightarrow> string"

record geo_fetcher =
  geo_id :: string
  data_dir :: string
  soft_path :: string
  gse_object_path :: string
  pheno_csv :: string
  log_file :: string

definition GeoDatasetFetcher :: "string \<Rightarrow> string \<Rightarrow> string \<Rightarrow> geo_fetcher" where
  "GeoDatasetFetcher ddir rdir gid =
     \<lparr>geo_id = gid, data_dir = ddir,
      soft_path = path_join ddir (''s00005_'' @ gid @ ''_family.soft.gz''),
      gse_object_path = path_join ddir (''s00005_'' @ gid @ ''_gse_object.joblib''),
      pheno_csv = path_join rdir (''s00005_'' @ gid @ ''_phenotypes.csv''),
      log_file = path_join rdir (''s00005_download_dataset_'' @ gid @ ''.txt'')\<rparr>"

text \<open>\<^verbatim>\<open>os.listdir(d)\<close>: the names of the files directly in \<open>d\<close>.\<close>

definition listdir :: "world \<Rightarrow> string \<Rightarrow> string list" where
  "listdir w d =
     (let pre = path_join d [] in
      List.map_filter
        (\<lambda>(p, c). let fn = drop (length pre) p in
           if take (length pre) p = pre \<and> fn \<noteq> [] \<and> CHR ''/'' \<notin> set fn then Some fn else None)
        (files w))"

definition startswith :: "string \<Rightarrow> string \<Rightarrow> bool" where
  "startswith s pre = (take (length pre) s = pre)"

definition endswith :: "string \<Rightarrow> string \<Rightarrow> bool" where
  "endswith s suf = (length suf \<le> length s \<and> drop (length s - length suf) s = suf)"

text \<open>\<^verbatim>\<open>shutil.move(src, dst)\<close> and \<^verbatim>\<open>shutil.copy(src, dst)\<close>
  on files.\<close>

definition move :: "string \<Rightarrow> string \<Rightarrow> world \<Rightarrow> unit outcome" where
  "move src dst w =
     (case map_of (files w) src of
        None \<Rightarrow> (Inl (FileNotFoundError src), w)
      | Some c \<Rightarrow> (Inr (), w\<lparr>files := AList.update dst c (AList.delete src (files w))\<rparr>))"

definition copy_file :: "string \<Rightarrow> string \<Rightarrow> world \<Rightarrow> unit outcome" where
  "copy_file src dst w =
     (case map_of (files w) src of
        None \<Rightarrow> (Inl (FileNotFoundError src), w)
      | Some c \<Rightarrow> (Inr (), write_file dst c w))"

text \<open>The loop of \<^verbatim>\<open>download_soft\<close> over the directory listing: the first
  name that starts with the GEO id and ends in \<^verbatim>\<open>.soft.gz\<close> is moved to the
  standard path, and the loop stops.\<close>

fun rename_first :: "geo_fetcher \<Rightarrow> string list \<Rightarrow> world \<Rightarrow> unit outcome" where
  "rename_first self [] w = (Inr (), w)"
| "rename_first self (fn # fns) w =
     (if startswith fn (geo_id self) \<and> endswith fn ''.soft.gz''
      then (let src = path_join (data_dir self) fn in
            if src \<noteq> soft_path self then move src (soft_path self) w else (Inr (), w))
      else rename_first self fns w)"

definition download_soft :: "libs \<Rightarrow> geo_fetcher \<Rightarrow> world \<Rightarrow> unit outcome" where
  "download_soft L self w =
     (if exists_path w (soft_path self) \<and> getsize w (soft_path self) > 0
      then (Inr (), log_info (SoftPresent (soft_path self)) w)
      else
        let w1 = log_info (Downloading (geo_id self) (soft_path self)) w in
        case get_GEO_remote L (geo_id self) (data_dir self) w1 of
          (Inl e, w2) \<Rightarrow> (Inl e, w2)
        | (Inr _, w2) \<Rightarrow>
            (case rename_first self (listdir w2 (data_dir self)) w2 of
               (Inl e, w3) \<Rightarrow> (Inl e, w3)
             | (Inr _, w3) \<Rightarrow> (Inr (), log_info DownloadComplete w3)))"

text \<open>\<^verbatim>\<open>joblib.load(path)\<close>.\<close>

definition joblib_load :: "libs \<Rightarrow> string \<Rightarrow> world \<Rightarrow> error + gse" where
  "joblib_load L p w =
     (case map_of (files w) p of
        None \<Rightarrow> Inl (FileNotFoundError p)
      | Some bytes \<Rightarrow> joblib_loads L bytes)"




text \<open>The parameters of \<^verbatim>\<open>GEOparse.get_GEO\<close>; it takes no other keyword.
  The download in \<^verbatim>\<open>download_soft\<close> passes \<^verbatim>\<open>geo=\<close>,
  \<^verbatim>\<open>destdir=\<close> and \<^verbatim>\<open>how=\<close>.\<close>

definition get_GEO_parameters :: "string list" where
  "get_GEO_parameters =
     [''geo'', ''filepath'', ''destdir'', ''how'', ''annotate_gpl'', ''geotype'',
      ''include_data'', ''silent'', ''aspera'', ''partial'', ''open_kwargs'']"

text \<open>\<^verbatim>\<open>GEOparse.get_GEO(filepath=p, ...)\<close>, called with
  \<^verbatim>\<open>filepath=\<close> and the other keywords listed: a keyword that is not a
  parameter is a \<^verbatim>\<open>TypeError\<close> of the call, before anything is parsed.\<close>

definition get_GEO_filepath :: "libs \<Rightarrow> string \<Rightarrow> string list \<Rightarrow> world \<Rightarrow> error + gse" where
  "get_GEO_filepath L p keywords w =
     (case filter (\<lambda>k. k \<notin> set get_GEO_parameters) keywords of
        k # ks \<Rightarrow> Inl (TypeError (''get_GEO() got an unexpected keyword argument '' @ k))
      | [] \<Rightarrow> get_GEO_file L p (map_of (files w) p))"

text \<open>The rest of \<^verbatim>\<open>load_or_parse_gse\<close>, after the \<^verbatim>\<open>except\<close>
  clause: parse the SOFT file, by its name first, and save the object. The second call
  is \<^verbatim>\<open>GEOparse.get_GEO(filepath=self.soft_path, GEO=self.geo_id)\<close>.\<close>

definition parse_from_soft :: "libs \<Rightarrow> geo_fetcher \<Rightarrow> world \<Rightarrow> gse outcome" where
  "parse_from_soft L self w =
     (let dir_name = dirname (soft_path self);
          friendly_name = geo_id self @ ''_family.soft.gz'';
          friendly_path = path_join dir_name friendly_name;
          copied =
            (if \<not> exists_path w friendly_path
             then (case copy_file (soft_path self) friendly_path w of
                     (Inl e, w1) \<Rightarrow> (Inl e, w1)
                   | (Inr u, w1) \<Rightarrow> (Inr u, log_info (FriendlyCopy friendly_path) w1))
             else (Inr (), w))
      in case copied of
           (Inl e, w1) \<Rightarrow> (Inl e, w1)
         | (Inr _, w1) \<Rightarrow>
             let parsed =
                   (case get_GEO_filepath L friendly_path [] w1 of
                      Inl (ValueError ve) \<Rightarrow>
                        (get_GEO_filepath L (soft_path self) [''GEO'']
                           (log_info (FilenameParseFailed ve) w1),
                         log_info (FilenameParseFailed ve) w1)
                    | r \<Rightarrow> (r, w1))
             in case parsed of
                  (Inl e, w2) \<Rightarrow> (Inl e, w2)
                | (Inr g, w2) \<Rightarrow>
                    (Inr g, log_info (Resaved (gse_object_path self))
                              (write_file (gse_object_path self) (joblib_dumps L g) w2)))"


text \<open>The body of the inner loop of \<^verbatim>\<open>summarize_phenotypes\<close>: one
  item of the field, written into the dictionary of the sample's row.\<close>

definition add_item :: "string \<Rightarrow> (string \<times> string) list \<Rightarrow> (string \<times> string) list" where
  "add_item item row =
     (if has_colon item
      then (let (k, v) = split_colon item
            in AList.update (str_lower (str_strip k)) (str_strip v) row)
      else row)"

text \<open>The body of the outer loop: the values seen so far and the rows built so far,
  after one more sample.\<close>

definition sample_step ::
  "string \<Rightarrow> string \<times> gsm \<Rightarrow> string list \<times> (string \<times> string) list list
     \<Rightarrow> string list \<times> (string \<times> string) list list" where
  "sample_step field sample acc =
     (let (sample_id, g) = sample; (vals, rows) = acc;
          row = [(''sample_id'', sample_id)]
      in case map_of (gsm_metadata g) field of
           None \<Rightarrow> (vals, rows @ [row])
         | Some meta \<Rightarrow>
             if meta \<noteq> [] then (vals @ meta, rows @ [fold add_item meta row])
             else (vals, rows @ [row]))"

text \<open>\<^verbatim>\<open>collections.Counter(values)\<close>: each label with the number of times
  it occurs, in the order of first occurrence.\<close>

definition count_one :: "string \<Rightarrow> (string \<times> nat) list \<Rightarrow> (string \<times> nat) list" where
  "count_one v c = AList.update v (case map_of c v of None \<Rightarrow> 1 | Some n \<Rightarrow> n + 1) c"

definition Counter :: "string list \<Rightarrow> (string \<times> nat) list" where
  "Counter vals = fold count_one vals []"

text \<open>\<^verbatim>\<open>pd.DataFrame(rows)\<close> of a list of dictionaries: the columns are
  the keys in the order of their first appearance, and a row has no value in a column it
  lacks.\<close>

definition DataFrame_columns :: "(string \<times> string) list list \<Rightarrow> string list" where
  "DataFrame_columns rows = rev (remdups (rev (concat (map (map fst) rows))))"

definition DataFrame_cells :: "(string \<times> string) list list \<Rightarrow> string option list list" where
  "DataFrame_cells rows = map (\<lambda>row. map (map_of row) (DataFrame_columns rows)) rows"

definition summarize_phenotypes ::
  "libs \<Rightarrow> geo_fetcher \<Rightarrow> gse \<Rightarrow> string \<Rightarrow> world \<Rightarrow> unit outcome" where
  "summarize_phenotypes L self g field w =
     (case gsms g of
        Absent \<Rightarrow> (Inl (AttributeError ''gsms''), w)
      | Unsized \<Rightarrow> (Inl (AttributeError ''items''), w)
      | Sized samples \<Rightarrow>
          let (vals, rows) = fold (sample_step field) samples ([], []);
              w1 = log_info (MetadataSummary field) w;
              w2 = fold (\<lambda>(label, n). log_info (LabelCount label n)) (Counter vals) w1;
              w3 = log_info Blank w2;
              w4 = write_file (pheno_csv self)
                     (to_csv L (DataFrame_columns rows) (DataFrame_cells rows)) w3
          in (Inr (), log_info (CsvSaved (pheno_csv self)) w4))"



subsection \<open>AnnotationInspector\<close>

record response =
  status_code :: nat
  content :: string

record tar_member =
  name :: string
  data :: string

text \<open>The libraries the inspector calls: \<^verbatim>\<open>requests.get\<close>, and
  \<^verbatim>\<open>tarfile.open(...).getmembers()\<close> on the bytes of an archive.\<close>

record annotation_libs =
  requests_get :: "string \<Rightarrow> nat \<Rightarrow> error + response"
  tarfile_open :: "string \<Rightarrow> error + tar_member list"

definition download_if_needed ::
  "annotation_libs \<Rightarrow> string \<Rightarrow> string \<Rightarrow> nat \<Rightarrow> world \<Rightarrow> unit outcome" where
  "download_if_needed A url out_path timeout w =
     (if exists_path w out_path \<and> getsize w out_path > 0 then (Inr (), w)
      else
        let w1 = w\<lparr>requests := requests w @ [HttpGet url timeout]\<rparr> in
        case requests_get A url timeout of
          Inl e \<Rightarrow> (Inl e, w1)
        | Inr resp \<Rightarrow>
            if 400 \<le> status_code resp \<and> status_code resp < 600
            then (Inl (HTTPError url), w1)
            else (Inr (), write_file out_path (content resp) w1))"

definition is_within_directory :: "string \<Rightarrow> string \<Rightarrow> string \<Rightarrow> bool" where
  "is_within_directory wd directory target =
     (let abs_directory = abspath wd directory;
          abs_target = abspath wd target
      in commonprefix [abs_directory, abs_target] = abs_directory)"

text \<open>The loop of \<^verbatim>\<open>_safe_extract\<close> over the members of the archive.\<close>

fun check_members :: "string \<Rightarrow> string \<Rightarrow> tar_member list \<Rightarrow> error + unit" where
  "check_members wd extract_dir [] = Inr ()"
| "check_members wd extract_dir (member # members) =
     (let member_path = path_join extract_dir (name member) in
      if \<not> is_within_directory wd extract_dir member_path then Inl PathTraversal
      else check_members wd extract_dir members)"

text \<open>\<^verbatim>\<open>tar.extractall(path=extract_dir)\<close> with no extraction filter: each
  member is written at the path its name joins to, which the file system resolves.\<close>

definition extractall :: "tar_member list \<Rightarrow> string \<Rightarrow> world \<Rightarrow> world" where
  "extractall members extract_dir w =
     fold (\<lambda>member. write_file (abspath (cwd w) (path_join extract_dir (name member))) (data member))
       members w"

definition safe_extract :: "annotation_libs \<Rightarrow> string \<Rightarrow> string \<Rightarrow> world \<Rightarrow> unit outcome" where
  "safe_extract A tar_path extract_dir w =
     (case map_of (files w) tar_path of
        None \<Rightarrow> (Inl (FileNotFoundError tar_path), w)
      | Some bytes \<Rightarrow>
          (case tarfile_open A bytes of
             Inl e \<Rightarrow> (Inl e, w)
           | Inr members \<Rightarrow>
               (case check_members (cwd w) extract_dir members of
                  Inl e \<Rightarrow> (Inl e, w)
                | Inr _ \<Rightarrow> (Inr (), extractall members extract_dir w))))"

text \<open>The spec's notion of a path that stays within the destination: resolved to an
  absolute path, it is the destination directory or a path below it.\<close>

definition spec_within :: "string \<Rightarrow> string \<Rightarrow> string \<Rightarrow> bool" where
  "spec_within wd directory target =
     (let d = abspath wd directory; t = abspath wd target
      in t = d \<or> startswith t (path_join d []))"

subsection \<open>Data frames in a store\<close>

text \<open>A data frame is an object: the store is the list of the objects allocated so far,
  and a reference is a position in it. A frame has its column names and its rows, each row
  with its index label.\<close>

datatype scalar = IntVal int | StrVal string

record frame =
  index_name :: "string option"
  columns :: "string list"
  rows :: "(scalar \<times> scalar list) list"

type_synonym store = "frame list"

definition alloc :: "store \<Rightarrow> frame \<Rightarrow> nat \<times> store" where
  "alloc h f = (length h, h @ [f])"

text \<open>\<^verbatim>\<open>df.copy()\<close>: a new object with the same data and index.\<close>

definition copy_frame :: "store \<Rightarrow> nat \<Rightarrow> nat \<times> store" where
  "copy_frame h a = alloc h (h ! a)"

text \<open>\<^verbatim>\<open>Index.astype(str)\<close> on one label.\<close>

definition astype_str :: "scalar \<Rightarrow> scalar" where
  "astype_str v = (case v of IntVal i \<Rightarrow> StrVal (str_int i) | StrVal s \<Rightarrow> StrVal s)"

text \<open>\<^verbatim>\<open>df.index = df.index.astype(str)\<close>: the object at \<open>a\<close> is updated
  in place.\<close>

definition set_index_astype_str :: "store \<Rightarrow> nat \<Rightarrow> store" where
  "set_index_astype_str h a =
     h[a := (h ! a)\<lparr>rows := map (\<lambda>(l, cells). (astype_str l, cells)) (rows (h ! a))\<rparr>]"

text \<open>\<^verbatim>\<open>left.join(right, how="inner")\<close>: the pairs of rows with equal
  labels, in the order of the left frame; a column name on both sides is an error.\<close>

definition join_inner :: "frame \<Rightarrow> frame \<Rightarrow> error + frame" where
  "join_inner left right =
     (if list_ex (\<lambda>c. c \<in> set (columns right)) (columns left)
      then Inl (ValueError ''columns overlap but no suffix specified'')
      else Inr \<lparr>index_name = (if index_name left = index_name right then index_name left else None),
                columns = columns left @ columns right,
                rows = concat (map (\<lambda>(l, lc).
                         map (\<lambda>(r, rc). (l, lc @ rc)) (filter (\<lambda>(r, rc). r = l) (rows right)))
                         (rows left))\<rparr>)"

text \<open>\<^verbatim>\<open>df.reset_index()\<close>: the labels become the first column, named after
  the index, or \<^verbatim>\<open>index\<close>, or \<^verbatim>\<open>level_0\<close> when that is taken; the
  new index counts the rows.\<close>

definition reset_index :: "frame \<Rightarrow> error + frame" where
  "reset_index f =
     (let new_name = (case index_name f of
                        Some n \<Rightarrow> n
                      | None \<Rightarrow> if ''index'' \<in> set (columns f) then ''level_0'' else ''index'')
      in if new_name \<in> set (columns f)
         then Inl (ValueError (''cannot insert '' @ new_name @ '', already exists''))
         else Inr \<lparr>index_name = None,
                   columns = new_name # columns f,
                   rows = map (\<lambda>(i, (l, cells)). (IntVal (int i), l # cells))
                            (enumerate 0 (rows f))\<rparr>)"

text \<open>\<^verbatim>\<open>df.rename(columns={old: new})\<close>.\<close>

definition rename_columns :: "string \<Rightarrow> string \<Rightarrow> frame \<Rightarrow> frame" where
  "rename_columns old new f = f\<lparr>columns := map (\<lambda>c. if c = old then new else c) (columns f)\<rparr>"

definition merge_annotation_frames :: "store \<Rightarrow> nat \<Rightarrow> nat \<Rightarrow> (error + nat) \<times> store" where
  "merge_annotation_frames h locations_df other_df =
     (let (locations_df', h1) = copy_frame h locations_df;
          (other_df', h2) = copy_frame h1 other_df;
          h3 = set_index_astype_str h2 locations_df';
          h4 = set_index_astype_str h3 other_df'
      in case join_inner (h4 ! locations_df') (h4 ! other_df') of
           Inl e \<Rightarrow> (Inl e, h4)
         | Inr joined \<Rightarrow>
             let (merged, h5) = alloc h4 joined in
             case reset_index (h5 ! merged) of
               Inl e \<Rightarrow> (Inl e, h5)
             | Inr flat \<Rightarrow>
                 let (merged', h6) = alloc h5 flat;
                     (merged'', h7) = alloc h6 (rename_columns ''index'' ''CpG'' (h6 ! merged'))
                 in (Inr merged'', h7))"

subsection \<open>Notions used in the statements\<close>

text \<open>The key and the value that \<open>add_item\<close> takes from an item with a colon, and
  the values of the field of one sample (none when the field is missing).\<close>

definition item_key :: "string \<Rightarrow> string" where
  "item_key item = str_lower (str_strip (fst (split_colon item)))"

definition item_value :: "string \<Rightarrow> string" where
  "item_value item = str_strip (snd (split_colon item))"

definition field_values :: "string \<Rightarrow> string \<times> gsm \<Rightarrow> string list" where
  "field_values field sample =
     (case map_of (gsm_metadata (snd sample)) field of None \<Rightarrow> [] | Some meta \<Rightarrow> meta)"

text \<open>Example inputs: a parsed series of two samples, library functions (the parser
  takes the type of the record from the first letters of the file name, as GEOparse does),
  two fetchers and a world with the given files.\<close>

definition example_samples :: "(string \<times> gsm) list" where
  "example_samples =
     [(''GSM1'', \<lparr>gsm_metadata = [(''characteristics_ch1'', [''age: 45'', ''sex: female''])]\<rparr>),
      (''GSM2'', \<lparr>gsm_metadata = [(''characteristics_ch1'', [''Age: 45'', ''age: 50'', ''unlabelled''])]\<rparr>)]"

definition example_gse :: gse where
  "example_gse = \<lparr>gsms = Sized example_samples, metadata = Sized [(''title'', [''example series''])]\<rparr>"

definition example_libs :: libs where
  "example_libs =
     \<lparr>joblib_loads = (\<lambda>bytes.
        if bytes = ''empty'' then Inr \<lparr>gsms = Sized [], metadata = Sized []\<rparr>
        else if bytes = ''object'' then Inr \<lparr>gsms = Unsized, metadata = Absent\<rparr>
        else if bytes = ''exit'' then Inl (SystemExit 1)
        else Inl (UnpicklingError bytes)),
      joblib_dumps = (\<lambda>g. ''pickled''),
      get_GEO_remote = (\<lambda>geo destdir w.
        (Inr (), write_file (path_join destdir (geo @ ''_family.soft.gz'')) ''soft''
                   (w\<lparr>requests := requests w @ [GeoDownload geo destdir]\<rparr>))),
      get_GEO_file = (\<lambda>p bytes.
        case bytes of
          None \<Rightarrow> Inl (FileNotFoundError p)
        | Some b \<Rightarrow>
            if startswith (basename p) ''GSE'' then Inr example_gse
            else Inl (ValueError ''Unknown GEO type'')),
      to_csv = (\<lambda>cols cells. ''csv'')\<rparr>"

definition example_fetcher :: geo_fetcher where
  "example_fetcher = GeoDatasetFetcher ''/data'' ''/results'' ''GSE1''"


definition example_world :: "(string \<times> string) list \<Rightarrow> world" where
  "example_world fs = \<lparr>files = fs, logged = [], requests = [], cwd = ''/''\<rparr>"

definition example_annotation_libs :: annotation_libs where
  "example_annotation_libs =
     \<lparr>requests_get = (\<lambda>url timeout. Inr \<lparr>status_code = 200, content = ''archive''\<rparr>),
      tarfile_open = (\<lambda>bytes. Inr [\<lparr>name = ''../out_evil/x'', data = ''payload''\<rparr>])\<rparr>"

text \<open>A store of two frames, indexed by probe.\<close>

definition example_store :: store where
  "example_store =
     [\<lparr>index_name = None, columns = [''chr''],
       rows = [(IntVal 1, [StrVal ''chr1'']), (StrVal ''cg2'', [StrVal ''chr2''])]\<rparr>,
      \<lparr>index_name = None, columns = [''gene''],
       rows = [(StrVal ''cg2'', [StrVal ''G2'']), (StrVal ''1'', [StrVal ''G1''])]\<rparr>]"

section \<open>Properties\<close>

subsection \<open>Durations\<close>

lemmas duration_eval = format_duration_def timedelta_of_seconds_def timedelta_str_def
  spec_H_MM_SS_def str_int_def pad2_def str_nat.simps digit_def Let_def

lemma py_round_nonneg: "0 \<le> x \<Longrightarrow> 0 \<le> py_round x"
  by (simp add: py_round_def Let_def)

lemma py_round_of_int: "py_round (of_int n) = n"
  by (simp add: py_round_def Let_def)

lemma timedelta_str_day0:
  "n < 86400 \<Longrightarrow> timedelta_str \<lparr>days = 0, seconds = n\<rparr> = spec_H_MM_SS n"
proof -
  have "n div 60 div 60 = n div 3600" by (simp add: div_mult2_eq [symmetric])
  then show ?thesis by (simp add: timedelta_str_def spec_H_MM_SS_def Let_def)
qed

lemma timedelta_small:
  "0 \<le> n \<Longrightarrow> n < 86400 \<Longrightarrow> timedelta_of_seconds n = Inr \<lparr>days = 0, seconds = nat n\<rparr>"
  by (simp add: timedelta_of_seconds_def Let_def)

text \<open>Below one day the format is H:MM:SS of the duration rounded to the nearest whole
  second (ties to even); 0 seconds gives 0:00:00 and 3661 seconds gives 1:01:01.\<close>

lemma format_duration_H_MM_SS:
  "(0 \<le> s \<and> py_round s < 86400 \<longrightarrow> format_duration s = Inr (spec_H_MM_SS (nat (py_round s))))
   \<and> format_duration 0 = Inr ''0:00:00''
   \<and> format_duration 3661 = Inr ''1:01:01''"
proof (intro conjI impI)
  assume a: "0 \<le> s \<and> py_round s < 86400"
  then have n0: "0 \<le> py_round s" by (simp add: py_round_nonneg)
  from a n0 have "nat (py_round s) < 86400" by linarith
  then show "format_duration s = Inr (spec_H_MM_SS (nat (py_round s)))"
    using a n0 by (simp add: format_duration_def timedelta_small timedelta_str_day0)
next
  have r: "py_round 0 = 0" using py_round_of_int [of 0] by simp
  show "format_duration 0 = Inr ''0:00:00''" by (simp add: r duration_eval)
next
  have r: "py_round 3661 = 3661" using py_round_of_int [of 3661] by simp
  show "format_duration 3661 = Inr ''1:01:01''" by (simp add: r duration_eval)
qed

lemma format_duration_H_MM_SS_example:
  "(0::rat) \<le> 7325 / 2 \<and> py_round (7325 / 2) < 86400 \<and> format_duration (7325 / 2) = Inr ''1:01:02''"
proof -
  have r: "py_round (7325 / 2) = 3662" by code_simp
  have v: "spec_H_MM_SS 3662 = ''1:01:02''" by (simp add: duration_eval)
  from format_duration_H_MM_SS [of "7325 / 2"] r v show ?thesis by simp
qed

text \<open>
  C6: at 86400 seconds, a duration of one day, \<open>format_duration\<close> returns the text
  \<open>1 day, 0:00:00\<close>, with a day count in front; H:MM:SS of 86400 seconds is 24:00:00.
\<close>

theorem format_duration_one_day:
  "format_duration 86400 = Inr ''1 day, 0:00:00'' \<and> spec_H_MM_SS (nat (py_round 86400)) = ''24:00:00''"
proof -
  have r: "py_round 86400 = 86400" using py_round_of_int [of 86400] by simp
  show ?thesis by (simp add: r duration_eval)
qed

subsection \<open>Resource deltas\<close>

text \<open>
  C7: \<open>delta\<close> is a function of the two snapshots alone. Its memory delta is the
  difference of the two \<open>mem_used\<close> divided by 1024 squared, its disk delta likewise, and
  its CPU field is the \<open>cpu_percent\<close> of the later snapshot; from 100 MB used to 150 MB
  used the memory delta is 50.
\<close>

theorem delta_is_arithmetic:
  "rss_delta (delta b a) = of_int (mem_used a - mem_used b) / 1024 ^ 2
   \<and> disk_delta (delta b a) = of_int (disk_used a - disk_used b) / 1024 ^ 2
   \<and> cpu_after (delta b a) = cpu_percent a
   \<and> rss_delta (delta (b\<lparr>mem_used := 100 * 1024 ^ 2\<rparr>) (a\<lparr>mem_used := 150 * 1024 ^ 2\<rparr>)) = 50"
  by (simp add: delta_def)

subsection \<open>The world\<close>

lemma files_log_info [simp]: "files (log_info m w) = files w"
  by (simp add: log_info_def)

lemma requests_log_info [simp]: "requests (log_info m w) = requests w"
  by (simp add: log_info_def)

lemma logged_log_info [simp]: "logged (log_info m w) = logged w @ [(INFO, m)]"
  by (simp add: log_info_def)

lemma exists_path_log_info [simp]: "exists_path (log_info m w) p = exists_path w p"
  by (simp add: exists_path_def)

lemma getsize_log_info [simp]: "getsize (log_info m w) p = getsize w p"
  by (simp add: getsize_def)

lemma joblib_load_log_info [simp]: "joblib_load L p (log_info m w) = joblib_load L p w"
  by (simp add: joblib_load_def)

lemma logged_write_file [simp]: "logged (write_file p c w) = logged w"
  by (simp add: write_file_def)

lemma example_fetcher_paths:
  "example_fetcher =
     \<lparr>geo_id = ''GSE1'', data_dir = ''/data'',
      soft_path = ''/data/s00005_GSE1_family.soft.gz'',
      gse_object_path = ''/data/s00005_GSE1_gse_object.joblib'',
      pheno_csv = ''/results/s00005_GSE1_phenotypes.csv'',
      log_file = ''/results/s00005_download_dataset_GSE1.txt''\<rparr>"
  by (simp add: example_fetcher_def GeoDatasetFetcher_def path_join_def isabs_def)

lemma isinstance_Exception_simps [simp]:
  "\<not> isinstance_Exception (SystemExit c)" "\<not> isinstance_Exception KeyboardInterrupt"
  "isinstance_Exception (FileNotFoundError p)" "isinstance_Exception (UnpicklingError b)"
  "isinstance_Exception AssertionError" "isinstance_Exception (TypeError t)"
  "isinstance_Exception (AttributeError a)" "isinstance_Exception (ValueError v)"
  by (simp_all add: isinstance_Exception_def)

lemma truth_value_simps [simp]:
  "\<not> truth_value (FalsyException n)" "truth_value (ConnectionError c)"
  by (simp_all add: truth_value_def)

lemma get_GEO_filepath_log_info [simp]:
  "get_GEO_filepath L p ks (log_info m w) = get_GEO_filepath L p ks w"
  by (simp add: get_GEO_filepath_def split: list.split)

subsection \<open>StepTimer\<close>




subsection \<open>verify_gse_object\<close>







subsection \<open>Cached downloads\<close>

text \<open>
  C2: when the file at the target path exists and is not empty, \<open>download_soft\<close> only
  logs that the file is present and \<open>download_if_needed\<close> does nothing: both return
  normally, the files and the list of network requests are as before, whatever the
  content of the file is.
\<close>

theorem cached_file_is_trusted:
  assumes "map_of (files w) p = Some c" and "0 < length c"
  shows "(soft_path self = p \<longrightarrow>
            download_soft L self w = (Inr (), log_info (SoftPresent p) w)
          \<and> map_of (files (snd (download_soft L self w))) p = Some c
          \<and> requests (snd (download_soft L self w)) = requests w)
       \<and> download_if_needed A url p timeout w = (Inr (), w)"
  using assms
  by (simp add: download_soft_def download_if_needed_def exists_path_def getsize_def)

theorem cached_file_is_trusted_witness:
  "map_of (files (example_world [(''/data/s00005_GSE1_family.soft.gz'', ''soft'')]))
      ''/data/s00005_GSE1_family.soft.gz'' = Some ''soft''
   \<and> download_soft example_libs example_fetcher
        (example_world [(''/data/s00005_GSE1_family.soft.gz'', ''soft'')])
      = (Inr (), \<lparr>files = [(''/data/s00005_GSE1_family.soft.gz'', ''soft'')],
                  logged = [(INFO, SoftPresent ''/data/s00005_GSE1_family.soft.gz'')],
                  requests = [], cwd = ''/''\<rparr>)
   \<and> download_if_needed example_annotation_libs ''https://example.org/a.tar.gz''
        ''/data/s00005_GSE1_family.soft.gz'' 60
        (example_world [(''/data/s00005_GSE1_family.soft.gz'', ''soft'')])
      = (Inr (), example_world [(''/data/s00005_GSE1_family.soft.gz'', ''soft'')])"
proof -
  let ?p = "''/data/s00005_GSE1_family.soft.gz''"
  let ?w = "example_world [(?p, ''soft'')]"
  have f: "map_of (files ?w) ?p = Some ''soft''" by (simp add: example_world_def)
  have l: "0 < length ''soft''" by simp
  have s: "soft_path example_fetcher = ?p" by (simp add: example_fetcher_paths)
  note a = cached_file_is_trusted [OF f l, of example_fetcher example_libs
              example_annotation_libs "''https://example.org/a.tar.gz''" 60]
  from a s have d: "download_soft example_libs example_fetcher ?w = (Inr (), log_info (SoftPresent ?p) ?w)"
    by blast
  from a have e: "download_if_needed example_annotation_libs ''https://example.org/a.tar.gz'' ?p 60 ?w
      = (Inr (), ?w)" by blast
  show ?thesis
    unfolding d e by (simp add: example_world_def log_info_def)
qed

subsection \<open>summarize_phenotypes\<close>

lemma add_item_no_colon: "\<not> has_colon item \<Longrightarrow> add_item item row = row"
  by (simp add: add_item_def)

lemma add_item_colon:
  "has_colon item \<Longrightarrow> add_item item row = AList.update (item_key item) (item_value item) row"
  by (simp add: add_item_def item_key_def item_value_def split: prod.split)

lemma fold_add_item_filter:
  "fold add_item meta row = fold add_item (filter has_colon meta) row"
  by (induction meta arbitrary: row) (simp_all add: add_item_no_colon)

lemma map_of_add_item:
  "map_of (add_item item row) k =
     (if has_colon item \<and> item_key item = k then Some (item_value item) else map_of row k)"
  by (cases "has_colon item") (auto simp: add_item_no_colon add_item_colon update_conv')

lemma distinct_add_item:
  "distinct (map fst row) \<Longrightarrow> distinct (map fst (add_item item row))"
  by (cases "has_colon item") (simp_all add: add_item_no_colon add_item_colon distinct_update)

lemma distinct_fold_add_item:
  "distinct (map fst row) \<Longrightarrow> distinct (map fst (fold add_item meta row))"
  by (induction meta arbitrary: row) (simp_all add: distinct_add_item)

lemma map_of_fold_add_item:
  "map_of (fold add_item meta row) k =
     (case filter (\<lambda>i. has_colon i \<and> item_key i = k) meta of
        [] \<Rightarrow> map_of row k
      | x # xs \<Rightarrow> Some (item_value (last (x # xs))))"
proof (induction meta arbitrary: row)
  case Nil
  then show ?case by simp
next
  case (Cons i meta)
  show ?case
    by (cases "filter (\<lambda>i. has_colon i \<and> item_key i = k) meta")
      (simp_all add: Cons.IH map_of_add_item)
qed

lemma map_of_count_one:
  "map_of (count_one v c) x =
     (if x = v then Some (case map_of c v of None \<Rightarrow> 1 | Some n \<Rightarrow> n + 1) else map_of c x)"
  by (simp add: count_one_def update_conv')

lemma map_of_fold_count_one:
  "map_of (fold count_one vals c) x =
     (if x \<in> set vals
      then Some (count_list vals x + (case map_of c x of None \<Rightarrow> 0 | Some n \<Rightarrow> n))
      else map_of c x)"
  by (induction vals arbitrary: c) (auto simp: map_of_count_one split: option.split)

lemma map_of_Counter:
  "map_of (Counter vals) x = (if x \<in> set vals then Some (count_list vals x) else None)"
  by (simp add: Counter_def map_of_fold_count_one)

lemma distinct_count_one: "distinct (map fst c) \<Longrightarrow> distinct (map fst (count_one v c))"
  by (simp add: count_one_def distinct_update)

lemma distinct_Counter: "distinct (map fst (Counter vals))"
proof -
  have "distinct (map fst c) \<Longrightarrow> distinct (map fst (fold count_one vals c))" for c
    by (induction vals arbitrary: c) (simp_all add: distinct_count_one)
  then show ?thesis by (simp add: Counter_def)
qed

lemma fold_sample_step_values:
  "fst (fold (sample_step field) samples (vals, rs))
     = vals @ concat (map (field_values field) samples)"
  by (induction samples arbitrary: vals rs)
    (auto simp: sample_step_def field_values_def Let_def split: option.split prod.split)

lemma count_list_pos: "x \<in> set xs \<Longrightarrow> 0 < count_list xs x"
  by (induction xs) auto

lemma logged_fold_LabelCount:
  "logged (fold (\<lambda>(l, n). log_info (LabelCount l n)) c w)
     = logged w @ map (\<lambda>(l, n). (INFO, LabelCount l n)) c"
  by (induction c arbitrary: w) (simp_all split: prod.split)

lemma logged_summarize_phenotypes:
  assumes s: "gsms gs = Sized samples"
  shows "logged (snd (summarize_phenotypes L self gs field w))
     = logged w @ [(INFO, MetadataSummary field)]
       @ map (\<lambda>(l, n). (INFO, LabelCount l n)) (Counter (concat (map (field_values field) samples)))
       @ [(INFO, Blank), (INFO, CsvSaved (pheno_csv self))]"
proof -
  obtain vals rs where f: "fold (sample_step field) samples ([], []) = (vals, rs)"
    by (cases "fold (sample_step field) samples ([], [])")
  then have "vals = concat (map (field_values field) samples)"
    using fold_sample_step_values [of field samples "[]" "[]"] by simp
  then show ?thesis
    using f s by (simp add: summarize_phenotypes_def Let_def logged_fold_LabelCount)
qed

lemma Counter_entry:
  "x \<in> set vals \<Longrightarrow> (x, count_list vals x) \<in> set (Counter vals)"
  by (rule map_of_SomeD) (simp add: map_of_Counter)

lemma key_age: "item_key ''age: 45'' = ''age''" by code_simp

lemma value_age: "item_value ''age: 45'' = ''45''" by code_simp

lemma key_sex: "item_key ''sex: female'' = ''sex''" by code_simp

lemma value_sex: "item_value ''sex: female'' = ''female''" by code_simp

lemma key_Age: "item_key ''Age: 45'' = ''age''" by code_simp

lemma key_age50: "item_key ''age: 50'' = ''age''" by code_simp

lemma value_age50: "item_value ''age: 50'' = ''50''" by code_simp

lemma row_age_sex:
  "fold add_item [''age: 45'', ''sex: female''] [(''sample_id'', sid)]
     = [(''sample_id'', sid), (''age'', ''45''), (''sex'', ''female'')]"
  by (simp add: add_item_colon has_colon_def key_age value_age key_sex value_sex)

lemma row_Age_age:
  "fold add_item [''Age: 45'', ''age: 50''] [(''sample_id'', sid)]
     = [(''sample_id'', sid), (''age'', ''50'')]"
  by (simp add: add_item_colon has_colon_def key_Age key_age50 value_age50)

lemma Counter_Age_age: "Counter [''Age: 45'', ''age: 50''] = [(''Age: 45'', 1), (''age: 50'', 1)]"
  by (simp add: Counter_def count_one_def)

lemma fold_sample_step_rows:
  "snd (fold (sample_step field) samples (vals, rs))
     = rs @ map (\<lambda>s. fold add_item (field_values field s) [(''sample_id'', fst s)]) samples"
  by (induction samples arbitrary: vals rs)
    (auto simp: sample_step_def field_values_def Let_def split: option.split prod.split)

lemma set_DataFrame_columns:
  "set (DataFrame_columns rs) = (\<Union>r \<in> set rs. fst ` set r)"
  by (auto simp: DataFrame_columns_def)

lemma distinct_DataFrame_columns: "distinct (DataFrame_columns rs)"
  by (simp add: DataFrame_columns_def)

lemma DataFrame_cell:
  assumes "i < length rs" and "map_of (rs ! i) k = Some v"
  shows "map_of (zip (DataFrame_columns rs) (DataFrame_cells rs ! i)) k = Some (Some v)"
proof -
  from assms(2) have "k \<in> fst ` set (rs ! i)" by (metis map_of_eq_None_iff option.distinct(1))
  with assms(1) have "k \<in> set (DataFrame_columns rs)"
    by (auto simp: set_DataFrame_columns)
  moreover have "DataFrame_cells rs ! i = map (map_of (rs ! i)) (DataFrame_columns rs)"
    using assms(1) by (simp add: DataFrame_cells_def)
  ultimately show ?thesis using assms(2) by (simp add: map_of_zip_map)
qed

lemma files_summarize_phenotypes:
  assumes "gsms gs = Sized samples"
  shows "files (snd (summarize_phenotypes L self gs field w))
     = AList.update (pheno_csv self)
         (to_csv L (DataFrame_columns (snd (fold (sample_step field) samples ([], []))))
                   (DataFrame_cells (snd (fold (sample_step field) samples ([], [])))))
         (files w)"
proof -
  have "files (fold (\<lambda>(l, n). log_info (LabelCount l n)) c w') = files w'" for c w'
    by (induction c arbitrary: w') (simp_all split: prod.split)
  then show ?thesis
    using assms
    by (simp add: summarize_phenotypes_def Let_def write_file_def split: prod.split)
qed

lemma fold_add_item_without:
  assumes "\<not> has_colon item"
  shows "fold add_item (filter (\<lambda>x. x \<noteq> item) meta) row = fold add_item meta row"
proof -
  have "filter has_colon (filter (\<lambda>x. x \<noteq> item) meta) = filter has_colon meta"
    using assms by (induction meta) auto
  then show ?thesis
    using fold_add_item_filter [of "filter (\<lambda>x. x \<noteq> item) meta" row]
      fold_add_item_filter [of meta row] by simp
qed

lemma sample_row:
  assumes "i < length samples" and "samples ! i = (sid, g)"
    and "map_of (gsm_metadata g) field = Some meta"
  shows "snd (fold (sample_step field) samples ([], [])) ! i = fold add_item meta [(''sample_id'', sid)]"
  using assms by (simp add: fold_sample_step_rows field_values_def)

lemma sample_values:
  assumes "i < length samples" and "samples ! i = (sid, g)"
    and "map_of (gsm_metadata g) field = Some meta" and "item \<in> set meta"
  shows "item \<in> set (fst (fold (sample_step field) samples ([], [])))"
proof -
  from assms have "item \<in> set (field_values field (samples ! i))" by (simp add: field_values_def)
  with assms(1) show ?thesis
    by (auto simp: fold_sample_step_values intro!: bexI [of _ "samples ! i"])
qed

lemma logged_LabelCount:
  assumes "gsms gs = Sized samples"
    and "item \<in> set (fst (fold (sample_step field) samples ([], [])))"
  shows "(INFO, LabelCount item (count_list (fst (fold (sample_step field) samples ([], []))) item))
           \<in> set (logged (snd (summarize_phenotypes L self gs field w)))"
proof -
  have v: "fst (fold (sample_step field) samples ([], [])) = concat (map (field_values field) samples)"
    using fold_sample_step_values [of field samples "[]" "[]"] by simp
  from Counter_entry [OF assms(2)] show ?thesis
    unfolding v by (force simp: logged_summarize_phenotypes [OF assms(1)])
qed

lemma example_values:
  "fst (fold (sample_step ''characteristics_ch1'') example_samples ([], []))
     = [''age: 45'', ''sex: female'', ''Age: 45'', ''age: 50'', ''unlabelled'']"
proof -
  have "fst (fold (sample_step ''characteristics_ch1'') example_samples ([], []))
      = [] @ concat (map (field_values ''characteristics_ch1'') example_samples)"
    by (rule fold_sample_step_values)
  then show ?thesis by (simp add: example_samples_def field_values_def)
qed

text \<open>
  C3: on a series with samples, \<open>summarize_phenotypes\<close> returns normally and writes, as
  CSV, the table of the rows its loop builds, one for each sample. A sample whose field is
  the list of \<open>age: 45\<close> and \<open>sex: female\<close> gets the row with \<open>sample_id\<close>,
  \<open>age\<close> = 45 and \<open>sex\<close> = female, and the table has 45 and female in its row under
  the columns \<open>age\<close> and \<open>sex\<close>: an entry with a colon is split at its first colon,
  and the row gets the trimmed text after it under the trimmed, lower-cased text before it.
  An entry without a colon leaves the row of its sample as it would be without the entry,
  and is still counted: the summary logs it with the number of its occurrences in the
  field over all samples.
\<close>

theorem phenotype_row_columns:
  fixes field :: string and samples :: "(string \<times> gsm) list"
  defines "vals \<equiv> fst (fold (sample_step field) samples ([], []))"
    and "rs \<equiv> snd (fold (sample_step field) samples ([], []))"
  assumes s: "gsms gs = Sized samples"
  shows "fst (summarize_phenotypes L self gs field w) = Inr ()
     \<and> files (snd (summarize_phenotypes L self gs field w))
         = AList.update (pheno_csv self) (to_csv L (DataFrame_columns rs) (DataFrame_cells rs)) (files w)
     \<and> length rs = length samples
     \<and> (i < length samples \<and> samples ! i = (sid, g)
          \<and> map_of (gsm_metadata g) field = Some [''age: 45'', ''sex: female''] \<longrightarrow>
          rs ! i = [(''sample_id'', sid), (''age'', ''45''), (''sex'', ''female'')]
          \<and> map_of (zip (DataFrame_columns rs) (DataFrame_cells rs ! i)) ''age'' = Some (Some ''45'')
          \<and> map_of (zip (DataFrame_columns rs) (DataFrame_cells rs ! i)) ''sex'' = Some (Some ''female''))
     \<and> (has_colon entry \<longrightarrow>
          add_item entry row
            = AList.update (str_lower (str_strip (takeWhile (\<lambda>c. c \<noteq> CHR '':'') entry)))
                (str_strip (tl (dropWhile (\<lambda>c. c \<noteq> CHR '':'') entry))) row)
     \<and> (i < length samples \<and> samples ! i = (sid, g) \<and> map_of (gsm_metadata g) field = Some meta
          \<and> item \<in> set meta \<and> \<not> has_colon item \<longrightarrow>
          rs ! i = fold add_item (filter (\<lambda>x. x \<noteq> item) meta) [(''sample_id'', sid)]
          \<and> 0 < count_list vals item
          \<and> (INFO, LabelCount item (count_list vals item))
              \<in> set (logged (snd (summarize_phenotypes L self gs field w))))"
proof (intro conjI impI)
  show "fst (summarize_phenotypes L self gs field w) = Inr ()"
    using s by (simp add: summarize_phenotypes_def Let_def split: prod.split)
next
  show "files (snd (summarize_phenotypes L self gs field w))
         = AList.update (pheno_csv self) (to_csv L (DataFrame_columns rs) (DataFrame_cells rs)) (files w)"
    unfolding rs_def by (rule files_summarize_phenotypes [OF s])
next
  show l: "length rs = length samples" by (simp add: rs_def fold_sample_step_rows)
next
  assume a: "i < length samples \<and> samples ! i = (sid, g)
          \<and> map_of (gsm_metadata g) field = Some [''age: 45'', ''sex: female'']"
  then have r: "rs ! i = fold add_item [''age: 45'', ''sex: female''] [(''sample_id'', sid)]"
    unfolding rs_def using sample_row by blast
  then show r': "rs ! i = [(''sample_id'', sid), (''age'', ''45''), (''sex'', ''female'')]"
    by (simp only: row_age_sex)
  from a have i: "i < length rs" by (simp add: rs_def fold_sample_step_rows)
  show "map_of (zip (DataFrame_columns rs) (DataFrame_cells rs ! i)) ''age'' = Some (Some ''45'')"
    by (rule DataFrame_cell [OF i]) (simp add: r')
  show "map_of (zip (DataFrame_columns rs) (DataFrame_cells rs ! i)) ''sex'' = Some (Some ''female'')"
    by (rule DataFrame_cell [OF i]) (simp add: r')
next
  assume "has_colon entry"
  then show "add_item entry row
            = AList.update (str_lower (str_strip (takeWhile (\<lambda>c. c \<noteq> CHR '':'') entry)))
                (str_strip (tl (dropWhile (\<lambda>c. c \<noteq> CHR '':'') entry))) row"
    by (simp add: add_item_def split_colon_def)
next
  assume a: "i < length samples \<and> samples ! i = (sid, g) \<and> map_of (gsm_metadata g) field = Some meta
          \<and> item \<in> set meta \<and> \<not> has_colon item"
  then have "rs ! i = fold add_item meta [(''sample_id'', sid)]"
    unfolding rs_def using sample_row by blast
  with a show "rs ! i = fold add_item (filter (\<lambda>x. x \<noteq> item) meta) [(''sample_id'', sid)]"
    by (simp add: fold_add_item_without)
  from a have m: "item \<in> set vals" unfolding vals_def using sample_values by blast
  then show "0 < count_list vals item" by (rule count_list_pos)
  from m show "(INFO, LabelCount item (count_list vals item))
              \<in> set (logged (snd (summarize_phenotypes L self gs field w)))"
    unfolding vals_def by (rule logged_LabelCount [OF s])
qed

theorem phenotype_row_columns_witness:
  "gsms example_gse = Sized example_samples
   \<and> fst (summarize_phenotypes example_libs example_fetcher example_gse ''characteristics_ch1''
        (example_world [])) = Inr ()
   \<and> files (snd (summarize_phenotypes example_libs example_fetcher example_gse ''characteristics_ch1''
        (example_world []))) = [(''/results/s00005_GSE1_phenotypes.csv'', ''csv'')]
   \<and> snd (fold (sample_step ''characteristics_ch1'') example_samples ([], [])) ! 0
       = [(''sample_id'', ''GSM1''), (''age'', ''45''), (''sex'', ''female'')]
   \<and> map_of (zip (DataFrame_columns (snd (fold (sample_step ''characteristics_ch1'') example_samples ([], []))))
                 (DataFrame_cells (snd (fold (sample_step ''characteristics_ch1'') example_samples ([], []))) ! 0))
        ''age'' = Some (Some ''45'')
   \<and> has_colon ''age: 45''
   \<and> add_item ''age: 45'' [(''sample_id'', ''GSM2'')] = [(''sample_id'', ''GSM2''), (''age'', ''45'')]
   \<and> \<not> has_colon ''unlabelled''
   \<and> snd (fold (sample_step ''characteristics_ch1'') example_samples ([], [])) ! 1
       = fold add_item (filter (\<lambda>x. x \<noteq> ''unlabelled'') [''Age: 45'', ''age: 50'', ''unlabelled''])
           [(''sample_id'', ''GSM2'')]
   \<and> (INFO, LabelCount ''unlabelled'' 1)
       \<in> set (logged (snd (summarize_phenotypes example_libs example_fetcher example_gse
                 ''characteristics_ch1'' (example_world []))))"
proof -
  let ?f = "''characteristics_ch1''"
  let ?g1 = "\<lparr>gsm_metadata = [(?f, [''age: 45'', ''sex: female''])]\<rparr>"
  let ?g2 = "\<lparr>gsm_metadata = [(?f, [''Age: 45'', ''age: 50'', ''unlabelled''])]\<rparr>"
  have g: "gsms example_gse = Sized example_samples" by (simp add: example_gse_def)
  have n: "\<not> has_colon ''unlabelled''" by (simp add: has_colon_def)
  have hc: "has_colon ''age: 45''" by (simp add: has_colon_def)
  have c: "count_list (fst (fold (sample_step ?f) example_samples ([], []))) ''unlabelled'' = 1"
    by (simp add: example_values)
  have i0: "0 < length example_samples \<and> example_samples ! 0 = (''GSM1'', ?g1)
      \<and> map_of (gsm_metadata ?g1) ?f = Some [''age: 45'', ''sex: female'']"
    by (simp add: example_samples_def)
  have i1: "1 < length example_samples \<and> example_samples ! 1 = (''GSM2'', ?g2)
      \<and> map_of (gsm_metadata ?g2) ?f = Some [''Age: 45'', ''age: 50'', ''unlabelled'']
      \<and> ''unlabelled'' \<in> set [''Age: 45'', ''age: 50'', ''unlabelled''] \<and> \<not> has_colon ''unlabelled''"
    by (simp add: example_samples_def has_colon_def)
  have pc: "pheno_csv example_fetcher = ''/results/s00005_GSE1_phenotypes.csv''"
    by (simp add: example_fetcher_paths)
  have tc: "to_csv example_libs cols cells = ''csv''" for cols cells
    by (simp add: example_libs_def)
  note a = phenotype_row_columns [OF g, where L = example_libs and self = example_fetcher
              and field = ?f and w = "example_world []" and i = 0 and sid = "''GSM1''" and g = ?g1
              and entry = "''age: 45''" and row = "[(''sample_id'', ''GSM2'')]"]
  note b = phenotype_row_columns [OF g, where L = example_libs and self = example_fetcher
              and field = ?f and w = "example_world []" and i = 1 and sid = "''GSM2''" and g = ?g2
              and meta = "[''Age: 45'', ''age: 50'', ''unlabelled'']" and item = "''unlabelled''"]
  from a have a1: "fst (summarize_phenotypes example_libs example_fetcher example_gse ?f (example_world [])) = Inr ()"
    by blast
  from a have "files (snd (summarize_phenotypes example_libs example_fetcher example_gse ?f (example_world [])))
      = AList.update (pheno_csv example_fetcher)
          (to_csv example_libs (DataFrame_columns (snd (fold (sample_step ?f) example_samples ([], []))))
             (DataFrame_cells (snd (fold (sample_step ?f) example_samples ([], [])))))
          (files (example_world []))" by blast
  then have a2: "files (snd (summarize_phenotypes example_libs example_fetcher example_gse ?f (example_world [])))
      = [(''/results/s00005_GSE1_phenotypes.csv'', ''csv'')]"
    by (simp add: pc tc example_world_def)
  from a i0 have a3: "snd (fold (sample_step ?f) example_samples ([], [])) ! 0
       = [(''sample_id'', ''GSM1''), (''age'', ''45''), (''sex'', ''female'')]" by blast
  from a i0 have a4: "map_of (zip (DataFrame_columns (snd (fold (sample_step ?f) example_samples ([], []))))
                 (DataFrame_cells (snd (fold (sample_step ?f) example_samples ([], []))) ! 0))
        ''age'' = Some (Some ''45'')" by blast
  have k: "str_lower (str_strip (takeWhile (\<lambda>c. c \<noteq> CHR '':'') ''age: 45'')) = ''age''"
    using key_age by (simp add: item_key_def split_colon_def)
  have v: "str_strip (tl (dropWhile (\<lambda>c. c \<noteq> CHR '':'') ''age: 45'')) = ''45''"
    using value_age by (simp add: item_value_def split_colon_def)
  from a hc have "add_item ''age: 45'' [(''sample_id'', ''GSM2'')]
      = AList.update (str_lower (str_strip (takeWhile (\<lambda>c. c \<noteq> CHR '':'') ''age: 45'')))
          (str_strip (tl (dropWhile (\<lambda>c. c \<noteq> CHR '':'') ''age: 45''))) [(''sample_id'', ''GSM2'')]"
    by blast
  then have a5: "add_item ''age: 45'' [(''sample_id'', ''GSM2'')] = [(''sample_id'', ''GSM2''), (''age'', ''45'')]"
    unfolding k v by simp
  from b i1 have b1: "snd (fold (sample_step ?f) example_samples ([], [])) ! 1
       = fold add_item (filter (\<lambda>x. x \<noteq> ''unlabelled'') [''Age: 45'', ''age: 50'', ''unlabelled''])
           [(''sample_id'', ''GSM2'')]" by blast
  from b i1 have "(INFO, LabelCount ''unlabelled''
        (count_list (fst (fold (sample_step ?f) example_samples ([], []))) ''unlabelled''))
       \<in> set (logged (snd (summarize_phenotypes example_libs example_fetcher example_gse ?f (example_world []))))"
    by blast
  then have b2: "(INFO, LabelCount ''unlabelled'' 1)
       \<in> set (logged (snd (summarize_phenotypes example_libs example_fetcher example_gse ?f (example_world []))))"
    unfolding c .
  show ?thesis using g a1 a2 a3 a4 hc a5 n b1 b2 by blast
qed

text \<open>
  C9: in the rows that \<open>summarize_phenotypes\<close> builds and writes, the row of a sample
  has one column for each key, and at the key of an entry with a colon it holds the trimmed
  value of the last entry of the field that has this key, in the row and in the table
  written; with \<open>Age: 45\<close> followed by \<open>age: 50\<close> the row has \<open>age\<close> = 50 only.
  The tally that the function logs counts every entry by its own text, so both entries
  are logged, each with its own count.
\<close>

theorem last_entry_wins:
  fixes field :: string and samples :: "(string \<times> gsm) list"
  defines "vals \<equiv> fst (fold (sample_step field) samples ([], []))"
    and "rs \<equiv> snd (fold (sample_step field) samples ([], []))"
  assumes s: "gsms gs = Sized samples"
  shows "(i < length samples \<and> samples ! i = (sid, g) \<and> map_of (gsm_metadata g) field = Some meta \<longrightarrow>
          distinct (map fst (rs ! i))
          \<and> (has_colon item \<and> item \<in> set meta \<longrightarrow>
               map_of (rs ! i) (item_key item)
                 = Some (item_value (last (filter (\<lambda>x. has_colon x \<and> item_key x = item_key item) meta)))
               \<and> map_of (zip (DataFrame_columns rs) (DataFrame_cells rs ! i)) (item_key item)
                 = Some (Some (item_value (last (filter (\<lambda>x. has_colon x \<and> item_key x = item_key item) meta))))
               \<and> 0 < count_list vals item
               \<and> (INFO, LabelCount item (count_list vals item))
                   \<in> set (logged (snd (summarize_phenotypes L self gs field w))))
          \<and> (meta = [''Age: 45'', ''age: 50''] \<longrightarrow>
               rs ! i = [(''sample_id'', sid), (''age'', ''50'')]
               \<and> map_of (zip (DataFrame_columns rs) (DataFrame_cells rs ! i)) ''age'' = Some (Some ''50'')
               \<and> (INFO, LabelCount ''Age: 45'' (count_list vals ''Age: 45''))
                   \<in> set (logged (snd (summarize_phenotypes L self gs field w)))
               \<and> (INFO, LabelCount ''age: 50'' (count_list vals ''age: 50''))
                   \<in> set (logged (snd (summarize_phenotypes L self gs field w)))))
     \<and> (has_colon entry \<longrightarrow>
          add_item entry row = AList.update (item_key entry) (item_value entry) row)
     \<and> distinct (DataFrame_columns rs)
     \<and> files (snd (summarize_phenotypes L self gs field w))
         = AList.update (pheno_csv self) (to_csv L (DataFrame_columns rs) (DataFrame_cells rs)) (files w)
     \<and> logged (snd (summarize_phenotypes L self gs field w))
         = logged w @ [(INFO, MetadataSummary field)]
           @ map (\<lambda>(l, n). (INFO, LabelCount l n)) (Counter vals)
           @ [(INFO, Blank), (INFO, CsvSaved (pheno_csv self))]
     \<and> distinct (map fst (Counter vals))
     \<and> map_of (Counter vals) x = (if x \<in> set vals then Some (count_list vals x) else None)"
proof -
  have v: "vals = concat (map (field_values field) samples)"
    unfolding vals_def using fold_sample_step_values [of field samples "[]" "[]"] by simp
  have row: "rs ! i = fold add_item meta [(''sample_id'', sid)]"
    if "i < length samples \<and> samples ! i = (sid, g) \<and> map_of (gsm_metadata g) field = Some meta"
    for i sid g meta
    unfolding rs_def using that sample_row by blast
  have counted: "0 < count_list vals item
      \<and> (INFO, LabelCount item (count_list vals item))
          \<in> set (logged (snd (summarize_phenotypes L self gs field w)))"
    if "i < length samples \<and> samples ! i = (sid, g) \<and> map_of (gsm_metadata g) field = Some meta"
      and "item \<in> set meta"
    for i sid g meta item
  proof -
    from that have m: "item \<in> set vals" unfolding vals_def using sample_values by blast
    then have "0 < count_list vals item" by (rule count_list_pos)
    moreover from m have "(INFO, LabelCount item (count_list vals item))
          \<in> set (logged (snd (summarize_phenotypes L self gs field w)))"
      unfolding vals_def by (rule logged_LabelCount [OF s])
    ultimately show ?thesis by blast
  qed
  have part1: "distinct (map fst (rs ! i))
          \<and> (has_colon item \<and> item \<in> set meta \<longrightarrow>
               map_of (rs ! i) (item_key item)
                 = Some (item_value (last (filter (\<lambda>x. has_colon x \<and> item_key x = item_key item) meta)))
               \<and> map_of (zip (DataFrame_columns rs) (DataFrame_cells rs ! i)) (item_key item)
                 = Some (Some (item_value (last (filter (\<lambda>x. has_colon x \<and> item_key x = item_key item) meta))))
               \<and> 0 < count_list vals item
               \<and> (INFO, LabelCount item (count_list vals item))
                   \<in> set (logged (snd (summarize_phenotypes L self gs field w))))
          \<and> (meta = [''Age: 45'', ''age: 50''] \<longrightarrow>
               rs ! i = [(''sample_id'', sid), (''age'', ''50'')]
               \<and> map_of (zip (DataFrame_columns rs) (DataFrame_cells rs ! i)) ''age'' = Some (Some ''50'')
               \<and> (INFO, LabelCount ''Age: 45'' (count_list vals ''Age: 45''))
                   \<in> set (logged (snd (summarize_phenotypes L self gs field w)))
               \<and> (INFO, LabelCount ''age: 50'' (count_list vals ''age: 50''))
                   \<in> set (logged (snd (summarize_phenotypes L self gs field w))))"
    if a: "i < length samples \<and> samples ! i = (sid, g) \<and> map_of (gsm_metadata g) field = Some meta"
  proof (intro conjI impI)
    note r = row [OF a]
    from a have il: "i < length rs" by (simp add: rs_def fold_sample_step_rows)
    show "distinct (map fst (rs ! i))"
      unfolding r by (rule distinct_fold_add_item) simp
    {
      assume h: "has_colon item \<and> item \<in> set meta"
      then have "item \<in> set (filter (\<lambda>x. has_colon x \<and> item_key x = item_key item) meta)" by simp
      then obtain y ys where "filter (\<lambda>x. has_colon x \<and> item_key x = item_key item) meta = y # ys"
        by (cases "filter (\<lambda>x. has_colon x \<and> item_key x = item_key item) meta") auto
      then show m: "map_of (rs ! i) (item_key item)
                 = Some (item_value (last (filter (\<lambda>x. has_colon x \<and> item_key x = item_key item) meta)))"
        unfolding r by (simp add: map_of_fold_add_item)
      show "map_of (zip (DataFrame_columns rs) (DataFrame_cells rs ! i)) (item_key item)
                 = Some (Some (item_value (last (filter (\<lambda>x. has_colon x \<and> item_key x = item_key item) meta))))"
        by (rule DataFrame_cell [OF il m])
      from h counted [OF a] show "0 < count_list vals item"
        and "(INFO, LabelCount item (count_list vals item))
                   \<in> set (logged (snd (summarize_phenotypes L self gs field w)))" by blast+
    }
    {
      assume e: "meta = [''Age: 45'', ''age: 50'']"
      show r2: "rs ! i = [(''sample_id'', sid), (''age'', ''50'')]"
        unfolding r e by (rule row_Age_age)
      show "map_of (zip (DataFrame_columns rs) (DataFrame_cells rs ! i)) ''age'' = Some (Some ''50'')"
        by (rule DataFrame_cell [OF il]) (simp add: r2)
      from e counted [OF a, of "''Age: 45''"]
      show "(INFO, LabelCount ''Age: 45'' (count_list vals ''Age: 45''))
                   \<in> set (logged (snd (summarize_phenotypes L self gs field w)))" by simp
      from e counted [OF a, of "''age: 50''"]
      show "(INFO, LabelCount ''age: 50'' (count_list vals ''age: 50''))
                   \<in> set (logged (snd (summarize_phenotypes L self gs field w)))" by simp
    }
  qed
  have part2: "has_colon entry \<longrightarrow> add_item entry row = AList.update (item_key entry) (item_value entry) row"
    by (simp add: add_item_colon)
  have part3: "files (snd (summarize_phenotypes L self gs field w))
         = AList.update (pheno_csv self) (to_csv L (DataFrame_columns rs) (DataFrame_cells rs)) (files w)"
    unfolding rs_def by (rule files_summarize_phenotypes [OF s])
  have part4: "logged (snd (summarize_phenotypes L self gs field w))
         = logged w @ [(INFO, MetadataSummary field)]
           @ map (\<lambda>(l, n). (INFO, LabelCount l n)) (Counter vals)
           @ [(INFO, Blank), (INFO, CsvSaved (pheno_csv self))]"
    unfolding v by (rule logged_summarize_phenotypes [OF s])
  from part1 part2 part3 part4 distinct_DataFrame_columns [of rs] distinct_Counter [of vals]
    map_of_Counter [of vals x]
  show ?thesis by blast
qed

theorem last_entry_wins_witness:
  "gsms \<lparr>gsms = Sized [(''GSM3'', \<lparr>gsm_metadata = [(''characteristics_ch1'', [''Age: 45'', ''age: 50''])]\<rparr>)],
         metadata = Absent\<rparr>
     = Sized [(''GSM3'', \<lparr>gsm_metadata = [(''characteristics_ch1'', [''Age: 45'', ''age: 50''])]\<rparr>)]
   \<and> has_colon ''Age: 45'' \<and> ''Age: 45'' \<in> set [''Age: 45'', ''age: 50'']
   \<and> snd (fold (sample_step ''characteristics_ch1'')
         [(''GSM3'', \<lparr>gsm_metadata = [(''characteristics_ch1'', [''Age: 45'', ''age: 50''])]\<rparr>)] ([], [])) ! 0
       = [(''sample_id'', ''GSM3''), (''age'', ''50'')]
   \<and> map_of (snd (fold (sample_step ''characteristics_ch1'')
         [(''GSM3'', \<lparr>gsm_metadata = [(''characteristics_ch1'', [''Age: 45'', ''age: 50''])]\<rparr>)] ([], [])) ! 0)
        ''age'' = Some ''50''
   \<and> (INFO, LabelCount ''Age: 45'' 1)
       \<in> set (logged (snd (summarize_phenotypes example_libs example_fetcher
            \<lparr>gsms = Sized [(''GSM3'', \<lparr>gsm_metadata = [(''characteristics_ch1'', [''Age: 45'', ''age: 50''])]\<rparr>)],
              metadata = Absent\<rparr> ''characteristics_ch1'' (example_world []))))
   \<and> (INFO, LabelCount ''age: 50'' 1)
       \<in> set (logged (snd (summarize_phenotypes example_libs example_fetcher
            \<lparr>gsms = Sized [(''GSM3'', \<lparr>gsm_metadata = [(''characteristics_ch1'', [''Age: 45'', ''age: 50''])]\<rparr>)],
              metadata = Absent\<rparr> ''characteristics_ch1'' (example_world []))))"
proof -
  let ?f = "''characteristics_ch1''"
  let ?g3 = "\<lparr>gsm_metadata = [(?f, [''Age: 45'', ''age: 50''])]\<rparr>"
  let ?S = "[(''GSM3'', ?g3)]"
  let ?G = "\<lparr>gsms = Sized ?S, metadata = Absent\<rparr>"
  let ?rs = "snd (fold (sample_step ?f) ?S ([], []))"
  let ?vals = "fst (fold (sample_step ?f) ?S ([], []))"
  let ?out = "logged (snd (summarize_phenotypes example_libs example_fetcher ?G ?f (example_world [])))"
  have g: "gsms ?G = Sized ?S" by simp
  have h: "has_colon ''Age: 45'' \<and> ''Age: 45'' \<in> set [''Age: 45'', ''age: 50'']"
    by (simp add: has_colon_def)
  have i0: "0 < length ?S \<and> ?S ! 0 = (''GSM3'', ?g3)
      \<and> map_of (gsm_metadata ?g3) ?f = Some [''Age: 45'', ''age: 50'']" by simp
  have f: "filter (\<lambda>i. has_colon i \<and> item_key i = ''age'') [''Age: 45'', ''age: 50'']
             = [''Age: 45'', ''age: 50'']"
    by (simp add: has_colon_def key_Age key_age50)
  have "?vals = [] @ concat (map (field_values ?f) ?S)" by (rule fold_sample_step_values)
  then have v: "?vals = [''Age: 45'', ''age: 50'']" by (simp add: field_values_def)
  have c1: "count_list ?vals ''Age: 45'' = 1" and c2: "count_list ?vals ''age: 50'' = 1"
    unfolding v by simp_all
  note a = last_entry_wins [OF g, where L = example_libs and self = example_fetcher and field = ?f
              and w = "example_world []" and i = 0 and sid = "''GSM3''" and g = ?g3
              and meta = "[''Age: 45'', ''age: 50'']" and item = "''Age: 45''"]
  from a i0 have r: "?rs ! 0 = [(''sample_id'', ''GSM3''), (''age'', ''50'')]" by blast
  from a i0 h have "map_of (?rs ! 0) (item_key ''Age: 45'')
      = Some (item_value (last (filter (\<lambda>x. has_colon x \<and> item_key x = item_key ''Age: 45'')
                [''Age: 45'', ''age: 50''])))" by blast
  then have "map_of (?rs ! 0) ''age'' = Some (item_value (last [''Age: 45'', ''age: 50'']))"
    by (simp only: key_Age f)
  then have m: "map_of (?rs ! 0) ''age'' = Some ''50''" by (simp add: value_age50)
  from a i0 have "(INFO, LabelCount ''Age: 45'' (count_list ?vals ''Age: 45'')) \<in> set ?out" by blast
  then have l1: "(INFO, LabelCount ''Age: 45'' 1) \<in> set ?out" unfolding c1 .
  from a i0 have "(INFO, LabelCount ''age: 50'' (count_list ?vals ''age: 50'')) \<in> set ?out" by blast
  then have l2: "(INFO, LabelCount ''age: 50'' 1) \<in> set ?out" unfolding c2 .
  show ?thesis using g h r m l1 l2 by blast
qed

subsection \<open>load_or_parse_gse\<close>

lemma get_GEO_keyword_GEO:
  "get_GEO_filepath L p [''GEO''] w
     = Inl (TypeError ''get_GEO() got an unexpected keyword argument GEO'')"
  by (simp add: get_GEO_filepath_def get_GEO_parameters_def)

text \<open>Whenever the parse by file name raises \<^verbatim>\<open>ValueError\<close>, the second call
  raises \<^verbatim>\<open>TypeError\<close>: it passes the keyword \<^verbatim>\<open>GEO\<close>, which is not
  a parameter of \<^verbatim>\<open>get_GEO\<close>.\<close>

lemma fallback_raises_TypeError:
  assumes "exists_path w (path_join (dirname (soft_path self)) (geo_id self @ ''_family.soft.gz''))"
    and "get_GEO_filepath L (path_join (dirname (soft_path self)) (geo_id self @ ''_family.soft.gz'')) [] w
           = Inl (ValueError ve)"
  shows "parse_from_soft L self w
           = (Inl (TypeError ''get_GEO() got an unexpected keyword argument GEO''),
              log_info (FilenameParseFailed ve) w)"
  using assms by (simp add: parse_from_soft_def Let_def get_GEO_keyword_GEO)




subsection \<open>The path-traversal guard\<close>

text \<open>The guard accepts a target exactly when the absolute path of the directory is a
  prefix, character by character, of the absolute path of the target. So it accepts every
  path that stays within the directory, and what it rejects is outside.\<close>

lemma commonprefix_pair: "commonprefix [a, b] = longest_common_prefix b a"
  by (simp add: commonprefix_def)

lemma longest_common_prefix_eq_left:
  "longest_common_prefix b a = a \<longleftrightarrow> prefix a b"
proof
  assume "longest_common_prefix b a = a"
  then show "prefix a b" using longest_common_prefix_prefix1 [of b a] by simp
next
  assume "prefix a b"
  then show "longest_common_prefix b a = a"
    by (induction b a rule: longest_common_prefix.induct) auto
qed

lemma is_within_directory_prefix:
  "is_within_directory wd directory target \<longleftrightarrow> prefix (abspath wd directory) (abspath wd target)"
  by (simp add: is_within_directory_def Let_def commonprefix_pair longest_common_prefix_eq_left)

lemma startswith_prefix: "startswith s pre \<longleftrightarrow> prefix pre s"
proof
  assume "startswith s pre"
  then have "take (length pre) s = pre" by (simp add: startswith_def)
  then show "prefix pre s" using take_is_prefix [of "length pre" s] by simp
next
  assume "prefix pre s"
  then obtain r where "s = pre @ r" by (auto simp: prefix_def)
  then show "startswith s pre" by (simp add: startswith_def)
qed

lemma prefix_path_join_empty: "prefix d (path_join d [])"
  by (simp add: path_join_def isabs_def)

lemma spec_within_accepted:
  assumes "spec_within wd directory target"
  shows "is_within_directory wd directory target"
proof -
  let ?d = "abspath wd directory" and ?t = "abspath wd target"
  from assms consider "?t = ?d" | "prefix (path_join ?d []) ?t"
    by (auto simp: spec_within_def Let_def startswith_prefix)
  then have "prefix ?d ?t"
  proof cases
    case 1
    then show ?thesis by simp
  next
    case 2
    have "prefix ?d (path_join ?d [])" by (rule prefix_path_join_empty)
    then show ?thesis using 2 by (rule prefix_order.order_trans)
  qed
  then show ?thesis by (simp add: is_within_directory_prefix)
qed

lemma check_members_all_within:
  "(\<forall>m \<in> set ms. spec_within wd extract_dir (path_join extract_dir (name m)))
     \<Longrightarrow> check_members wd extract_dir ms = Inr ()"
  by (induction ms) (simp_all add: spec_within_accepted)

lemma check_members_rejects_outside:
  "check_members wd extract_dir ms = Inl e \<Longrightarrow>
     e = PathTraversal \<and> (\<exists>m \<in> set ms. \<not> spec_within wd extract_dir (path_join extract_dir (name m)))"
  by (induction ms) (auto simp: Let_def spec_within_accepted split: if_splits)

lemma escape_join: "path_join ''/data/out'' ''../out_evil/x'' = ''/data/out/../out_evil/x''"
  by (simp add: path_join_def isabs_def)

lemma escape_abspath: "abspath ''/'' ''/data/out/../out_evil/x'' = ''/data/out_evil/x''"
  by (simp add: abspath_def isabs_def normpath_def normpath_step_def Let_def)

lemma dest_abspath: "abspath ''/'' ''/data/out'' = ''/data/out''"
  by (simp add: abspath_def isabs_def normpath_def normpath_step_def Let_def)

text \<open>
  C1: an archive entry named \<open>../out_evil/x\<close>, extracted to \<open>/data/out\<close>, resolves
  to \<open>/data/out_evil/x\<close>, which is outside the destination; the guard accepts it, since
  \<open>/data/out\<close> is a prefix of that string, and \<open>safe_extract\<close> returns normally
  with the entry written outside the destination.
\<close>

theorem safe_extract_accepts_sibling_escape:
  "\<not> spec_within ''/'' ''/data/out'' (path_join ''/data/out'' ''../out_evil/x'')
   \<and> is_within_directory ''/'' ''/data/out'' (path_join ''/data/out'' ''../out_evil/x'')
   \<and> safe_extract example_annotation_libs ''/data/a.tar.gz'' ''/data/out''
        (example_world [(''/data/a.tar.gz'', ''archive'')])
      = (Inr (), \<lparr>files = [(''/data/a.tar.gz'', ''archive''), (''/data/out_evil/x'', ''payload'')],
                  logged = [], requests = [], cwd = ''/''\<rparr>)"
proof (intro conjI)
  show "\<not> spec_within ''/'' ''/data/out'' (path_join ''/data/out'' ''../out_evil/x'')"
    by (simp add: spec_within_def escape_join escape_abspath dest_abspath startswith_def
          path_join_def isabs_def)
  have w: "is_within_directory ''/'' ''/data/out'' ''/data/out/../out_evil/x''"
    by (simp add: is_within_directory_def escape_abspath dest_abspath commonprefix_def)
  then show "is_within_directory ''/'' ''/data/out'' (path_join ''/data/out'' ''../out_evil/x'')"
    by (simp add: escape_join)
  show "safe_extract example_annotation_libs ''/data/a.tar.gz'' ''/data/out''
        (example_world [(''/data/a.tar.gz'', ''archive'')])
      = (Inr (), \<lparr>files = [(''/data/a.tar.gz'', ''archive''), (''/data/out_evil/x'', ''payload'')],
                  logged = [], requests = [], cwd = ''/''\<rparr>)"
    by (simp add: safe_extract_def example_world_def example_annotation_libs_def w
          extractall_def escape_join escape_abspath write_file_def)
qed

subsection \<open>merge_annotation_frames\<close>

lemma length_set_index [simp]: "length (set_index_astype_str h a) = length h"
  by (simp add: set_index_astype_str_def)

lemma take_set_index:
  "n \<le> a \<Longrightarrow> take n (set_index_astype_str h a) = take n h"
  by (simp add: set_index_astype_str_def)

lemma merge_extends_store:
  "take (length h) (snd (merge_annotation_frames h locations_df other_df)) = h"
  by (simp add: merge_annotation_frames_def alloc_def copy_frame_def take_set_index Let_def
        split: sum.split prod.split)

lemma merge_result_fresh:
  "fst (merge_annotation_frames h locations_df other_df) = Inr r \<Longrightarrow> length h \<le> r"
  by (auto simp: merge_annotation_frames_def alloc_def copy_frame_def Let_def
        split: sum.splits prod.splits)

text \<open>
  C10: after \<open>merge_annotation_frames\<close>, whether it returns or raises, every frame
  that was in the store before the call is as it was, its index included: the store has
  only grown. In particular the two frames passed in are unchanged, also when they are the
  same object, and the frame returned is a new one.
\<close>

theorem merge_annotation_frames_keeps_arguments:
  "take (length h) (snd (merge_annotation_frames h locations_df other_df)) = h
   \<and> (locations_df < length h \<longrightarrow>
        snd (merge_annotation_frames h locations_df other_df) ! locations_df = h ! locations_df)
   \<and> (other_df < length h \<longrightarrow>
        snd (merge_annotation_frames h locations_df other_df) ! other_df = h ! other_df)
   \<and> (fst (merge_annotation_frames h locations_df other_df) = Inr r \<longrightarrow> length h \<le> r)"
proof -
  let ?h' = "snd (merge_annotation_frames h locations_df other_df)"
  have t: "take (length h) ?h' = h" by (rule merge_extends_store)
  have n: "?h' ! a = h ! a" if "a < length h" for a
  proof -
    from that have "take (length h) ?h' ! a = ?h' ! a" by simp
    with t show ?thesis by simp
  qed
  show ?thesis using t n merge_result_fresh by blast
qed

theorem merge_annotation_frames_keeps_arguments_witness:
  "(0::nat) < length example_store \<and> (1::nat) < length example_store
   \<and> snd (merge_annotation_frames example_store 0 1) ! 0 = example_store ! 0
   \<and> snd (merge_annotation_frames example_store 0 1) ! 1 = example_store ! 1
   \<and> snd (merge_annotation_frames example_store 0 0) ! 0 = example_store ! 0
   \<and> fst (merge_annotation_frames example_store 0 1) = Inr 6"
proof -
  have l: "length example_store = 2" by (simp add: example_store_def)
  have r: "fst (merge_annotation_frames example_store 0 1) = Inr 6"
    by (simp add: example_store_def merge_annotation_frames_def alloc_def copy_frame_def
          set_index_astype_str_def join_inner_def reset_index_def rename_columns_def
          astype_str_def str_int_def str_nat.simps digit_def Let_def)
  note a = merge_annotation_frames_keeps_arguments [of example_store 0 1 6]
  note b = merge_annotation_frames_keeps_arguments [of example_store 0 0]
  from a l have a0: "snd (merge_annotation_frames example_store 0 1) ! 0 = example_store ! 0" by simp
  from a l have a1: "snd (merge_annotation_frames example_store 0 1) ! 1 = example_store ! 1" by simp
  from b l have b0: "snd (merge_annotation_frames example_store 0 0) ! 0 = example_store ! 0" by simp
  from a r have "length example_store \<le> 6" by blast
  with a0 a1 b0 r l show ?thesis by simp
qed

end
